theory Spec2Isabelle
  imports Main
begin

section \<open>JavaScript values as the gateway sees them\<close>

text \<open>
  The gateway (\<^verbatim>\<open>src/authFlow.ts\<close>) never computes with the values it receives: it reads
  properties of parsed JSON, tests truthiness (\<^verbatim>\<open>!accessToken\<close>,
  \<^verbatim>\<open>req.query.week || 'current'\<close>), asks whether \<^verbatim>\<open>typeof code\<close> is \<^verbatim>\<open>'string'\<close>, and
  interpolates values into template strings. The values are those that \<^verbatim>\<open>JSON.parse\<close> and
  the query-string parser produce, plus \<^verbatim>\<open>undefined\<close>.

  A number is carried as the text JavaScript prints for it (its \<^verbatim>\<open>ToString\<close>), since that
  text and its truthiness are all the program ever uses of a number. A string is the
  list of its characters: the program only concatenates strings, compares them with
  the empty string and reads single characters. An object is the association list of
  its own properties, read with \<open>map_of\<close>.
\<close>

datatype jsval =
    JUndefined
  | JNull
  | JBool bool
  | JNum string
  | JStr string
  | JArr "jsval list"
  | JObj "(string \<times> jsval) list"

text \<open>What a \<^verbatim>\<open>try\<close> block of the program can catch.\<close>

datatype js_error =
    Error string              \<comment> \<open>\<^verbatim>\<open>new Error(message)\<close>\<close>
  | TypeError                 \<comment> \<open>property read on \<^verbatim>\<open>undefined\<close>/\<^verbatim>\<open>null\<close>, or a value with no string form\<close>
  | AxiosNetwork string       \<comment> \<open>the outbound call got no response; the detail\<close>
  | AxiosStatus nat jsval     \<comment> \<open>the outbound call got a status outside 200..299; status and body\<close>

text \<open>
  Truthiness, what \<^verbatim>\<open>!v\<close> and \<^verbatim>\<open>v || d\<close> test: \<^verbatim>\<open>undefined\<close>, \<^verbatim>\<open>null\<close>, \<^verbatim>\<open>false\<close>, zero,
  \<^verbatim>\<open>NaN\<close> and the empty string are falsy, everything else is truthy.
\<close>

fun truthy :: "jsval \<Rightarrow> bool" where
  "truthy JUndefined = False"
| "truthy JNull = False"
| "truthy (JBool b) = b"
| "truthy (JNum r) = (r \<noteq> ''0'' \<and> r \<noteq> ''NaN'')"
| "truthy (JStr s) = (s \<noteq> [])"
| "truthy (JArr xs) = True"
| "truthy (JObj kvs) = True"

text \<open>\<^verbatim>\<open>a || b\<close>\<close>

definition js_or :: "jsval \<Rightarrow> jsval \<Rightarrow> jsval" where
  "js_or a b = (if truthy a then a else b)"

text \<open>
  The string a template literal \<^verbatim>\<open>`${v}`\<close> puts in place of \<open>v\<close>. An array is its elements
  joined by commas, \<^verbatim>\<open>null\<close> and \<^verbatim>\<open>undefined\<close> elements giving the empty string. A plain
  object is \<^verbatim>\<open>[object Object]\<close>, unless it has an own property \<^verbatim>\<open>toString\<close>: a parsed value
  is never callable, \<^verbatim>\<open>valueOf\<close> then yields no primitive either, and the conversion throws.
\<close>

fun toString :: "jsval \<Rightarrow> js_error + string"
  and join :: "jsval list \<Rightarrow> js_error + string"
  and element :: "jsval \<Rightarrow> js_error + string" where
  "toString JUndefined = Inr ''undefined''"
| "toString JNull = Inr ''null''"
| "toString (JBool b) = Inr (if b then ''true'' else ''false'')"
| "toString (JNum r) = Inr r"
| "toString (JStr s) = Inr s"
| "toString (JArr xs) = join xs"
| "toString (JObj kvs) =
     (case map_of kvs ''toString'' of
        None \<Rightarrow> Inr ''[object Object]''
      | Some f \<Rightarrow> Inl TypeError)"
| "join [] = Inr []"
| "join [x] = element x"
| "join (x # y # ys) =
     (case element x of
        Inl e \<Rightarrow> Inl e
      | Inr a \<Rightarrow> (case join (y # ys) of
                    Inl e \<Rightarrow> Inl e
                  | Inr b \<Rightarrow> Inr (a @ '','' @ b)))"
| "element JUndefined = Inr []"
| "element JNull = Inr []"
| "element v = toString v"

text \<open>Decimal text of an array index, the property key that \<^verbatim>\<open>v[i]\<close> reads on an object.\<close>

definition digit :: "nat \<Rightarrow> char" where
  "digit d = ''0123456789'' ! d"

fun index_key :: "nat \<Rightarrow> string" where
  "index_key n = (if n < 10 then [digit n] else index_key (n div 10) @ [digit (n mod 10)])"

declare index_key.simps [simp del]

text \<open>
  Property reads \<^verbatim>\<open>v.name\<close> and \<^verbatim>\<open>v[i]\<close>. On \<^verbatim>\<open>undefined\<close> and \<^verbatim>\<open>null\<close> the read throws. On an
  object it is the own property of that name (for \<^verbatim>\<open>v[i]\<close>, the decimal text of \<open>i\<close>), or
  \<^verbatim>\<open>undefined\<close>. \<^verbatim>\<open>v[i]\<close> reads the \<open>i\<close>-th element of an array and the \<open>i\<close>-th character of
  a string, \<^verbatim>\<open>undefined\<close> out of range. Every other read is \<^verbatim>\<open>undefined\<close>: the names the
  program reads (\<^verbatim>\<open>access_token\<close>, \<^verbatim>\<open>fantasy_content\<close>, \<^verbatim>\<open>users\<close>, \<^verbatim>\<open>user\<close>, \<^verbatim>\<open>games\<close>, \<^verbatim>\<open>game\<close>,
  \<^verbatim>\<open>leagues\<close>, \<^verbatim>\<open>league\<close>, \<^verbatim>\<open>league_key\<close>) are none of those that strings, arrays, numbers,
  booleans or the prototype of objects define.
\<close>

datatype key = Name string | Index nat

fun get :: "key \<Rightarrow> jsval \<Rightarrow> js_error + jsval" where
  "get k JUndefined = Inl TypeError"
| "get k JNull = Inl TypeError"
| "get (Name n) (JObj kvs) = Inr (case map_of kvs n of None \<Rightarrow> JUndefined | Some v \<Rightarrow> v)"
| "get (Index i) (JObj kvs) =
     Inr (case map_of kvs (index_key i) of None \<Rightarrow> JUndefined | Some v \<Rightarrow> v)"
| "get (Index i) (JArr xs) = Inr (if i < length xs then xs ! i else JUndefined)"
| "get (Index i) (JStr s) = Inr (if i < length s then JStr [s ! i] else JUndefined)"
| "get k v = Inr JUndefined"

text \<open>A chain of reads \<^verbatim>\<open>v.a[0].b\<close>: the first read that throws ends the chain.\<close>

fun follow :: "key list \<Rightarrow> jsval \<Rightarrow> js_error + jsval" where
  "follow [] v = Inr v"
| "follow (k # ks) v = (case get k v of Inl e \<Rightarrow> Inl e | Inr w \<Rightarrow> follow ks w)"

section \<open>Configuration, outbound calls, responses\<close>

text \<open>
  The values the module reads once at load time. The process exits before serving when
  \<^verbatim>\<open>YAHOO_CLIENT_ID\<close> or \<^verbatim>\<open>YAHOO_CLIENT_SECRET\<close> is unset; \<open>port\<close> is the text of
  \<^verbatim>\<open>process.env.PORT || 3000\<close>.
\<close>

record config =
  clientId :: string
  clientSecret :: string
  port :: string

definition redirectUri :: "config \<Rightarrow> string" where
  "redirectUri cfg = ''https://localhost:'' @ port cfg @ ''/callback''"

definition authorizationUrl :: string where
  "authorizationUrl = ''https://api.login.yahoo.com/oauth2/request_auth''"

definition tokenUrl :: string where
  "tokenUrl = ''https://api.login.yahoo.com/oauth2/get_token''"

definition gamesUrl :: string where
  "gamesUrl = ''https://fantasysports.yahooapis.com/fantasy/v2/users;use_login=1/games?format=json''"

definition leaguesUrl :: string where
  "leaguesUrl =
     ''https://fantasysports.yahooapis.com/fantasy/v2/users;use_login=1/games;game_keys=nhl/leagues?format=json''"

definition scoreboardUrl :: "string \<Rightarrow> string \<Rightarrow> string" where
  "scoreboardUrl leagueKey week =
     ''https://fantasysports.yahooapis.com/fantasy/v2/league/'' @ leagueKey
       @ ''/scoreboard;week='' @ week @ ''?format=json''"

definition teamsUrl :: "string \<Rightarrow> string" where
  "teamsUrl leagueKey =
     ''https://fantasysports.yahooapis.com/fantasy/v2/league/'' @ leagueKey @ ''/teams?format=json''"

text \<open>
  A header value is literal text, or \<^verbatim>\<open>`Basic ${Buffer.from(x).toString('base64')}`\<close>, kept
  as the text \<open>x\<close> that is encoded. The body of the POST is kept as the fields handed to
  \<^verbatim>\<open>qs.stringify\<close>.
\<close>

datatype header = Lit string | BasicBase64 string

datatype call =
    Post string "(string \<times> string) list" "(string \<times> header) list"
  | Get string "(string \<times> header) list"

text \<open>
  What comes back from the network for one outbound call, and what \<^verbatim>\<open>await axios.get\<close> /
  \<^verbatim>\<open>await axios.post\<close> make of it: the program passes no \<^verbatim>\<open>validateStatus\<close>, so the promise
  resolves with the parsed body on a status in 200..299 and rejects otherwise. The body
  is the value the HTTP client hands over as \<^verbatim>\<open>data\<close>: the parsed JSON, or the text itself
  as a string when it is not JSON.
\<close>

datatype http_result = NetworkError string | HttpResponse nat jsval

datatype outcome = Rejected js_error | Resolved jsval

fun axios :: "http_result \<Rightarrow> outcome" where
  "axios (NetworkError d) = Rejected (AxiosNetwork d)"
| "axios (HttpResponse code b) =
     (if 200 \<le> code \<and> code < 300 then Resolved b else Rejected (AxiosStatus code b))"

text \<open>
  \<^verbatim>\<open>res.status(n).send(text)\<close>, \<^verbatim>\<open>res.json(data)\<close> and \<^verbatim>\<open>res.redirect(url)\<close>; \<^verbatim>\<open>send\<close> and
  \<^verbatim>\<open>json\<close> without \<^verbatim>\<open>status\<close> answer 200, \<^verbatim>\<open>redirect\<close> answers 302.
\<close>

datatype response = Send nat string | Json nat jsval | Redirect nat string

section \<open>The process state and the handlers\<close>

text \<open>
  \<^verbatim>\<open>let accessToken: string | null = null\<close> is the only variable the handlers share. The
  declared type is not enforced at run time: \<^verbatim>\<open>data\<close> is untyped, so the variable holds
  whatever \<^verbatim>\<open>data.access_token\<close> was. \<open>console\<close> collects the \<^verbatim>\<open>console.error\<close> lines of
  the handlers (label and error).
\<close>

record state =
  accessToken :: jsval
  console :: "(string \<times> js_error) list"

definition initial :: state where
  "initial = \<lparr>accessToken = JNull, console = []\<rparr>"

definition console_error :: "string \<Rightarrow> js_error \<Rightarrow> state \<Rightarrow> state" where
  "console_error label e s = s\<lparr>console := console s @ [(label, e)]\<rparr>"

text \<open>
  A handler is \<^verbatim>\<open>async\<close>: it runs until it answers or until it awaits an outbound call,
  and is resumed at the \<^verbatim>\<open>await\<close> when the call settles. \<open>cont\<close> names the \<^verbatim>\<open>await\<close> a
  handler is suspended at, with the local variables it still needs.
\<close>

datatype cont =
    AwaitToken                    \<comment> \<open>\<^verbatim>\<open>/callback\<close>, line 51\<close>
  | AwaitTest                     \<comment> \<open>\<^verbatim>\<open>/test\<close>, line 98\<close>
  | AwaitLeagues                  \<comment> \<open>\<^verbatim>\<open>/nhl-leagues\<close>, line 114\<close>
  | AwaitMatchupsLeagues jsval    \<comment> \<open>\<^verbatim>\<open>/nhl-matchups\<close>, line 134, with \<^verbatim>\<open>week\<close>\<close>
  | AwaitMatchups                 \<comment> \<open>\<^verbatim>\<open>/nhl-matchups\<close>, line 140\<close>
  | AwaitTeamsLeagues             \<comment> \<open>\<^verbatim>\<open>/nhl-teams\<close>, line 157\<close>
  | AwaitTeams                    \<comment> \<open>\<^verbatim>\<open>/nhl-teams\<close>, line 163\<close>

datatype step = Done response | Await call cont

subsection \<open>\<^verbatim>\<open>/auth\<close>\<close>

definition auth :: "config \<Rightarrow> state \<Rightarrow> state \<times> step" where
  "auth cfg s =
     (s, Done (Redirect 302
        (authorizationUrl @ ''?client_id='' @ clientId cfg @ ''&redirect_uri='' @ redirectUri cfg
           @ ''&response_type=code'')))"

subsection \<open>\<^verbatim>\<open>/callback\<close>\<close>

definition callback :: "config \<Rightarrow> jsval \<Rightarrow> state \<Rightarrow> state \<times> step" where
  "callback cfg code s =
     (case code of
        JStr c \<Rightarrow>
          (s, Await
             (Post tokenUrl
                [(''code'', c), (''redirect_uri'', redirectUri cfg),
                 (''grant_type'', ''authorization_code'')]
                [(''Authorization'', BasicBase64 (clientId cfg @ '':'' @ clientSecret cfg)),
                 (''Content-Type'', Lit ''application/x-www-form-urlencoded'')])
             AwaitToken)
      | _ \<Rightarrow> (s, Done (Send 400 ''Invalid authorization code'')))"

definition callback_failed :: "js_error \<Rightarrow> state \<Rightarrow> state \<times> step" where
  "callback_failed e s =
     (console_error ''Error getting token:'' e s, Done (Send 500 ''Authentication failed''))"

definition callback_settled :: "outcome \<Rightarrow> state \<Rightarrow> state \<times> step" where
  "callback_settled out s =
     (case out of
        Rejected e \<Rightarrow> callback_failed e s
      | Resolved data \<Rightarrow>
          (case get (Name ''access_token'') data of
             Inl e \<Rightarrow> callback_failed e s
           | Inr t \<Rightarrow>
               (s\<lparr>accessToken := t\<rparr>,
                Done (Send 200 ''Authentication successful! You can close this window.''))))"

subsection \<open>\<^verbatim>\<open>makeAuthenticatedRequest\<close>\<close>

text \<open>
  Up to its \<^verbatim>\<open>await\<close> the helper either throws or issues one GET. The check of the token is
  outside its \<^verbatim>\<open>try\<close>, so that error is not logged here; the header is built inside it.
\<close>

definition bearer :: "string \<Rightarrow> (string \<times> header) list" where
  "bearer t =
     [(''Authorization'', Lit (''Bearer '' @ t)),
      (''Content-Type'', Lit ''application/x-www-form-urlencoded'')]"

definition makeAuthenticatedRequest :: "string \<Rightarrow> state \<Rightarrow> state \<times> (js_error + call)" where
  "makeAuthenticatedRequest url s =
     (if \<not> truthy (accessToken s) then (s, Inl (Error ''Not authenticated''))
      else
        (case toString (accessToken s) of
           Inl e \<Rightarrow> (console_error ''Error making authenticated request:'' e s, Inl e)
         | Inr t \<Rightarrow> (s, Inr (Get url (bearer t)))))"

definition makeAuthenticatedRequest_settled ::
    "outcome \<Rightarrow> state \<Rightarrow> state \<times> (js_error + jsval)" where
  "makeAuthenticatedRequest_settled out s =
     (case out of
        Rejected e \<Rightarrow> (console_error ''Error making authenticated request:'' e s, Inl e)
      | Resolved data \<Rightarrow> (s, Inr data))"

subsection \<open>The data routes\<close>

definition unauthenticated :: response where
  "unauthenticated = Send 401 ''Not authenticated. Please authenticate first.''"

text \<open>The \<^verbatim>\<open>catch\<close> block of a data route: one log line, one fixed answer.\<close>

definition caught :: "string \<Rightarrow> string \<Rightarrow> js_error \<Rightarrow> state \<Rightarrow> state \<times> step" where
  "caught label message e s = (console_error label e s, Done (Send 500 message))"

text \<open>\<^verbatim>\<open>await makeAuthenticatedRequest(url)\<close> inside the \<^verbatim>\<open>try\<close> of a route, up to the call.\<close>

definition request :: "string \<Rightarrow> string \<Rightarrow> string \<Rightarrow> cont \<Rightarrow> state \<Rightarrow> state \<times> step" where
  "request label message url k s =
     (case makeAuthenticatedRequest url s of
        (s', Inl e) \<Rightarrow> caught label message e s'
      | (s', Inr c) \<Rightarrow> (s', Await c k))"

text \<open>The last call of a route settles: \<^verbatim>\<open>res.json(data)\<close>, or the \<^verbatim>\<open>catch\<close> block.\<close>

definition relay :: "string \<Rightarrow> string \<Rightarrow> outcome \<Rightarrow> state \<Rightarrow> state \<times> step" where
  "relay label message out s =
     (case makeAuthenticatedRequest_settled out s of
        (s', Inl e) \<Rightarrow> caught label message e s'
      | (s', Inr data) \<Rightarrow> (s', Done (Json 200 data)))"

definition test :: "state \<Rightarrow> state \<times> step" where
  "test s =
     (if \<not> truthy (accessToken s) then (s, Done unauthenticated)
      else request ''Error in /test route:'' ''Error making authenticated request''
             gamesUrl AwaitTest s)"

definition test_settled :: "outcome \<Rightarrow> state \<Rightarrow> state \<times> step" where
  "test_settled = relay ''Error in /test route:'' ''Error making authenticated request''"

definition nhl_leagues :: "state \<Rightarrow> state \<times> step" where
  "nhl_leagues s =
     (if \<not> truthy (accessToken s) then (s, Done unauthenticated)
      else request ''Error in /nhl-leagues route:'' ''Error fetching NHL league information''
             leaguesUrl AwaitLeagues s)"

definition nhl_leagues_settled :: "outcome \<Rightarrow> state \<Rightarrow> state \<times> step" where
  "nhl_leagues_settled =
     relay ''Error in /nhl-leagues route:'' ''Error fetching NHL league information''"

text \<open>
  \<^verbatim>\<open>leaguesData.fantasy_content.users[0].user[1].games[0].game[1].leagues[0].league[0].league_key\<close>
\<close>

definition league_key_path :: "key list" where
  "league_key_path =
     [Name ''fantasy_content'', Name ''users'', Index 0, Name ''user'', Index 1,
      Name ''games'', Index 0, Name ''game'', Index 1, Name ''leagues'', Index 0,
      Name ''league'', Index 0, Name ''league_key'']"

definition nhl_matchups :: "jsval \<Rightarrow> state \<Rightarrow> state \<times> step" where
  "nhl_matchups week_param s =
     (if \<not> truthy (accessToken s) then (s, Done unauthenticated)
      else
        (let week = js_or week_param (JStr ''current'')
         in request ''Error in /nhl-matchups route:'' ''Error fetching NHL matchup information''
              leaguesUrl (AwaitMatchupsLeagues week) s))"

definition nhl_matchups_leagues :: "jsval \<Rightarrow> outcome \<Rightarrow> state \<Rightarrow> state \<times> step" where
  "nhl_matchups_leagues week out s =
     (let label = ''Error in /nhl-matchups route:'';
          message = ''Error fetching NHL matchup information''
      in case makeAuthenticatedRequest_settled out s of
           (s', Inl e) \<Rightarrow> caught label message e s'
         | (s', Inr leaguesData) \<Rightarrow>
             (case follow league_key_path leaguesData of
                Inl e \<Rightarrow> caught label message e s'
              | Inr leagueKey \<Rightarrow>
                  (case toString leagueKey of
                     Inl e \<Rightarrow> caught label message e s'
                   | Inr lk \<Rightarrow>
                       (case toString week of
                          Inl e \<Rightarrow> caught label message e s'
                        | Inr w \<Rightarrow>
                            request label message (scoreboardUrl lk w) AwaitMatchups s'))))"

definition nhl_matchups_settled :: "outcome \<Rightarrow> state \<Rightarrow> state \<times> step" where
  "nhl_matchups_settled =
     relay ''Error in /nhl-matchups route:'' ''Error fetching NHL matchup information''"

definition nhl_teams :: "state \<Rightarrow> state \<times> step" where
  "nhl_teams s =
     (if \<not> truthy (accessToken s) then (s, Done unauthenticated)
      else request ''Error in /nhl-teams route:'' ''Error fetching NHL team information''
             leaguesUrl AwaitTeamsLeagues s)"

definition nhl_teams_leagues :: "outcome \<Rightarrow> state \<Rightarrow> state \<times> step" where
  "nhl_teams_leagues out s =
     (let label = ''Error in /nhl-teams route:'';
          message = ''Error fetching NHL team information''
      in case makeAuthenticatedRequest_settled out s of
           (s', Inl e) \<Rightarrow> caught label message e s'
         | (s', Inr leaguesData) \<Rightarrow>
             (case follow league_key_path leaguesData of
                Inl e \<Rightarrow> caught label message e s'
              | Inr leagueKey \<Rightarrow>
                  (case toString leagueKey of
                     Inl e \<Rightarrow> caught label message e s'
                   | Inr lk \<Rightarrow> request label message (teamsUrl lk) AwaitTeams s')))"

definition nhl_teams_settled :: "outcome \<Rightarrow> state \<Rightarrow> state \<times> step" where
  "nhl_teams_settled =
     relay ''Error in /nhl-teams route:'' ''Error fetching NHL team information''"

section \<open>Running the handlers\<close>

text \<open>
  An inbound request, with the query parameter its handler reads (\<^verbatim>\<open>undefined\<close> when the
  query has none of that name).
\<close>

datatype inbound =
    GetAuth
  | GetCallback jsval
  | GetTest
  | GetNhlLeagues
  | GetNhlMatchups jsval
  | GetNhlTeams

fun start :: "config \<Rightarrow> inbound \<Rightarrow> state \<Rightarrow> state \<times> step" where
  "start cfg GetAuth s = auth cfg s"
| "start cfg (GetCallback code) s = callback cfg code s"
| "start cfg GetTest s = test s"
| "start cfg GetNhlLeagues s = nhl_leagues s"
| "start cfg (GetNhlMatchups week) s = nhl_matchups week s"
| "start cfg GetNhlTeams s = nhl_teams s"

fun resume :: "cont \<Rightarrow> outcome \<Rightarrow> state \<Rightarrow> state \<times> step" where
  "resume AwaitToken out s = callback_settled out s"
| "resume AwaitTest out s = test_settled out s"
| "resume AwaitLeagues out s = nhl_leagues_settled out s"
| "resume (AwaitMatchupsLeagues week) out s = nhl_matchups_leagues week out s"
| "resume AwaitMatchups out s = nhl_matchups_settled out s"
| "resume AwaitTeamsLeagues out s = nhl_teams_leagues out s"
| "resume AwaitTeams out s = nhl_teams_settled out s"

text \<open>
  One request served alone: the handler runs to its end, each outbound call answered by
  the next element of \<open>answers\<close>. The result is the final state, the outbound calls in the
  order issued, and the response (\<open>None\<close> while a call is still unanswered).
\<close>

fun drive :: "step \<Rightarrow> http_result list \<Rightarrow> state \<Rightarrow> state \<times> call list \<times> response option" where
  "drive (Done r) answers s = (s, [], Some r)"
| "drive (Await c k) [] s = (s, [c], None)"
| "drive (Await c k) (a # answers) s =
     (case resume k (axios a) s of
        (s', next) \<Rightarrow>
          (case drive next answers s' of
             (s'', calls, r) \<Rightarrow> (s'', c # calls, r)))"

definition serve :: "config \<Rightarrow> inbound \<Rightarrow> http_result list \<Rightarrow> state \<Rightarrow>
    state \<times> call list \<times> response option" where
  "serve cfg req answers s = (case start cfg req s of (s', next) \<Rightarrow> drive next answers s')"

definition final :: "state \<times> call list \<times> response option \<Rightarrow> state" where
  "final r = fst r"

definition issued :: "state \<times> call list \<times> response option \<Rightarrow> call list" where
  "issued r = fst (snd r)"

definition reply :: "state \<times> call list \<times> response option \<Rightarrow> response option" where
  "reply r = snd (snd r)"

text \<open>
  The process as a whole: handlers of several requests may be suspended at once, and any
  of them may be the next to resume (section 5 of the specification). \<open>pending\<close> holds
  the suspended handlers, \<open>sent\<close> and \<open>answered\<close> record the outbound calls and the
  responses so far. An event is the arrival of a request or the settling of the call
  that the \<open>i\<close>-th suspended handler awaits.
\<close>

record server =
  current :: state
  pending :: "cont list"
  sent :: "call list"
  answered :: "response list"

definition boot :: server where
  "boot = \<lparr>current = initial, pending = [], sent = [], answered = []\<rparr>"

datatype event = Arrives inbound | Settles nat http_result

fun absorb :: "state \<times> step \<Rightarrow> server \<Rightarrow> server" where
  "absorb (s, Done r) srv = srv\<lparr>current := s, answered := answered srv @ [r]\<rparr>"
| "absorb (s, Await c k) srv =
     srv\<lparr>current := s, pending := pending srv @ [k], sent := sent srv @ [c]\<rparr>"

fun react :: "config \<Rightarrow> event \<Rightarrow> server \<Rightarrow> server" where
  "react cfg (Arrives req) srv = absorb (start cfg req (current srv)) srv"
| "react cfg (Settles i a) srv =
     (if i < length (pending srv)
      then absorb (resume (pending srv ! i) (axios a) (current srv))
             (srv\<lparr>pending := take i (pending srv) @ drop (Suc i) (pending srv)\<rparr>)
      else srv)"

fun run :: "config \<Rightarrow> event list \<Rightarrow> server \<Rightarrow> server" where
  "run cfg [] srv = srv"
| "run cfg (e # es) srv = run cfg es (react cfg e srv)"

text \<open>
  The four routes that forward to the remote API, and the text each \<^verbatim>\<open>catch\<close> block sends
  (\<^verbatim>\<open>/auth\<close> has no \<^verbatim>\<open>catch\<close> block).
\<close>

fun data_route :: "inbound \<Rightarrow> bool" where
  "data_route GetAuth = False"
| "data_route (GetCallback code) = False"
| "data_route GetTest = True"
| "data_route GetNhlLeagues = True"
| "data_route (GetNhlMatchups week) = True"
| "data_route GetNhlTeams = True"


subsection \<open>Concrete inputs\<close>

definition example_config :: config where
  "example_config = \<lparr>clientId = ''id'', clientSecret = ''secret'', port = ''3000''\<rparr>"

definition signed_in :: state where
  "signed_in = \<lparr>accessToken = JStr ''T'', console = []\<rparr>"

text \<open>
  A league list in the shape the remote API answers with: a collection is an object with
  the keys \<^verbatim>\<open>"0"\<close>, \<^verbatim>\<open>"1"\<close>, ... and \<^verbatim>\<open>"count"\<close>.
\<close>

definition example_leagues :: jsval where
  "example_leagues =
     JObj [(''fantasy_content'', JObj [(''users'', JObj [(''0'', JObj [(''user'',
       JArr [JObj [(''guid'', JStr ''G'')],
             JObj [(''games'', JObj [(''0'', JObj [(''game'',
               JArr [JObj [(''game_key'', JStr ''453'')],
                     JObj [(''leagues'', JObj [(''0'', JObj [(''league'',
                        JArr [JObj [(''league_key'', JStr ''453.l.1234''),
                                    (''name'', JStr ''L'')]])]),
                        (''count'', JNum ''1'')])]])]),
               (''count'', JNum ''1'')])]])]),
       (''count'', JNum ''1'')])])]"

text \<open>A process holding the token \<^verbatim>\<open>"T"\<close> with a \<^verbatim>\<open>/test\<close> and a \<^verbatim>\<open>/callback\<close> suspended.\<close>

definition example_server :: server where
  "example_server =
     \<lparr>current = signed_in, pending = [AwaitTest, AwaitToken], sent = [], answered = []\<rparr>"

section \<open>Properties\<close>

lemmas step_defs =
  callback_def callback_settled_def callback_failed_def
  makeAuthenticatedRequest_def makeAuthenticatedRequest_settled_def
  caught_def request_def relay_def unauthenticated_def
  test_def test_settled_def nhl_leagues_def nhl_leagues_settled_def
  nhl_matchups_def nhl_matchups_leagues_def nhl_matchups_settled_def
  nhl_teams_def nhl_teams_leagues_def nhl_teams_settled_def auth_def

lemmas serve_defs = serve_def final_def issued_def reply_def

lemma index_key_0: "index_key 0 = ''0''"
  by (simp add: index_key.simps digit_def)

lemma index_key_1: "index_key (Suc 0) = ''1''"
  by (simp add: index_key.simps digit_def)

lemma follow_example_leagues: "follow league_key_path example_leagues = Inr (JStr ''453.l.1234'')"
  by (simp add: league_key_path_def example_leagues_def index_key_0 index_key_1)

lemma accessToken_console_error [simp]: "accessToken (console_error l e s) = accessToken s"
  by (simp add: console_error_def)

subsection \<open>Which steps write the token\<close>

text \<open>No handler writes the token before its first \<^verbatim>\<open>await\<close>.\<close>

lemma start_keeps_token: "accessToken (fst (start cfg req s)) = accessToken s"
  by (cases req) (auto simp: step_defs Let_def split: jsval.splits sum.splits)

text \<open>
  After an \<^verbatim>\<open>await\<close> the only write is line 62, reached when the token exchange resolved and
  \<^verbatim>\<open>data.access_token\<close> could be read.
\<close>

lemma resume_token:
  "accessToken (fst (resume k out s)) =
     (case (k, out) of
        (AwaitToken, Resolved d) \<Rightarrow>
          (case get (Name ''access_token'') d of Inl e \<Rightarrow> accessToken s | Inr t \<Rightarrow> t)
      | _ \<Rightarrow> accessToken s)"
  by (cases k; cases out) (auto simp: step_defs Let_def split: jsval.splits sum.splits)

subsection \<open>\<^verbatim>\<open>/callback\<close>\<close>

text \<open>
  C1 as the specification states it: whenever the token exchange of a \<^verbatim>\<open>/callback\<close> with a
  string \<^verbatim>\<open>code\<close> fails, by a network error, a non-2xx response or a malformed response
  body, the answer is 500 and the token is what it was. The code does not look at the
  body of a 2xx response before reading \<^verbatim>\<open>data.access_token\<close> from it: with a body that is
  not a token response (text that is not JSON, which the HTTP client hands over as a
  string, or an object without the field) the read gives \<^verbatim>\<open>undefined\<close>, nothing throws, the
  handler answers 200 and the token \<^verbatim>\<open>"T"\<close> held before is replaced by \<^verbatim>\<open>undefined\<close>.
\<close>

theorem callback_malformed_body_counterexample:
  "accessToken signed_in = JStr ''T''
   \<and> reply (serve example_config (GetCallback (JStr ''abc''))
        [HttpResponse 200 (JStr ''<html>Bad gateway</html>'')] signed_in)
       = Some (Send 200 ''Authentication successful! You can close this window.'')
   \<and> accessToken (final (serve example_config (GetCallback (JStr ''abc''))
        [HttpResponse 200 (JStr ''<html>Bad gateway</html>'')] signed_in)) = JUndefined
   \<and> reply (serve example_config (GetCallback (JStr ''abc''))
        [HttpResponse 200 (JObj [(''token_type'', JStr ''bearer'')])] signed_in)
       = Some (Send 200 ''Authentication successful! You can close this window.'')
   \<and> accessToken (final (serve example_config (GetCallback (JStr ''abc''))
        [HttpResponse 200 (JObj [(''token_type'', JStr ''bearer'')])] signed_in)) = JUndefined"
  by (simp add: serve_defs step_defs signed_in_def)

text \<open>
  C1, amended: when the token exchange of a \<^verbatim>\<open>/callback\<close> with a string \<^verbatim>\<open>code\<close> fails by a
  network error or a non-2xx response, or answers 2xx with the body \<^verbatim>\<open>null\<close> (reading
  \<^verbatim>\<open>data.access_token\<close> then throws), the handler answers 500 \<^verbatim>\<open>Authentication failed\<close> and
  does not write the token. A 2xx answer with any other body is not a failure: the
  handler answers 200 and the token becomes that body's \<^verbatim>\<open>access_token\<close>, whatever it is.
  Both hold for the request served alone and for the resumed handler in whatever state
  it finds, so also when other requests ran in between.
\<close>

theorem callback_failure_leaves_token:
  "((\<exists>d. a = NetworkError d) \<or>
    (\<exists>n b. a = HttpResponse n b \<and> (n < 200 \<or> 300 \<le> n \<or> b = JNull \<or> b = JUndefined)) \<longrightarrow>
      reply (serve cfg (GetCallback (JStr c)) (a # rest) s)
        = Some (Send 500 ''Authentication failed'')
    \<and> accessToken (final (serve cfg (GetCallback (JStr c)) (a # rest) s)) = accessToken s
    \<and> snd (resume AwaitToken (axios a) s') = Done (Send 500 ''Authentication failed'')
    \<and> accessToken (fst (resume AwaitToken (axios a) s')) = accessToken s')
   \<and> (200 \<le> m \<and> m < 300 \<and> body \<noteq> JNull \<and> body \<noteq> JUndefined \<longrightarrow>
      reply (serve cfg (GetCallback (JStr c)) (HttpResponse m body # rest) s)
        = Some (Send 200 ''Authentication successful! You can close this window.'')
    \<and> get (Name ''access_token'') body
        = Inr (accessToken (final (serve cfg (GetCallback (JStr c)) (HttpResponse m body # rest) s)))
    \<and> snd (resume AwaitToken (axios (HttpResponse m body)) s')
        = Done (Send 200 ''Authentication successful! You can close this window.'')
    \<and> get (Name ''access_token'') body
        = Inr (accessToken (fst (resume AwaitToken (axios (HttpResponse m body)) s'))))"
proof (intro conjI impI)
  assume h: "(\<exists>d. a = NetworkError d) \<or>
    (\<exists>n b. a = HttpResponse n b \<and> (n < 200 \<or> 300 \<le> n \<or> b = JNull \<or> b = JUndefined))"
  from h show "reply (serve cfg (GetCallback (JStr c)) (a # rest) s)
      = Some (Send 500 ''Authentication failed'')"
    by (auto simp: serve_defs step_defs)
  from h show "accessToken (final (serve cfg (GetCallback (JStr c)) (a # rest) s)) = accessToken s"
    by (auto simp: serve_defs step_defs)
  from h show "snd (resume AwaitToken (axios a) s') = Done (Send 500 ''Authentication failed'')"
    by (auto simp: serve_defs step_defs)
  from h show "accessToken (fst (resume AwaitToken (axios a) s')) = accessToken s'"
    by (auto simp: serve_defs step_defs)
next
  assume h: "200 \<le> m \<and> m < 300 \<and> body \<noteq> JNull \<and> body \<noteq> JUndefined"
  then obtain t where t: "get (Name ''access_token'') body = Inr t"
    by (cases body) auto
  from h t show "reply (serve cfg (GetCallback (JStr c)) (HttpResponse m body # rest) s)
      = Some (Send 200 ''Authentication successful! You can close this window.'')"
    by (simp add: serve_defs step_defs)
  from h t show "get (Name ''access_token'') body
      = Inr (accessToken (final (serve cfg (GetCallback (JStr c)) (HttpResponse m body # rest) s)))"
    by (simp add: serve_defs step_defs)
  from h t show "snd (resume AwaitToken (axios (HttpResponse m body)) s')
      = Done (Send 200 ''Authentication successful! You can close this window.'')"
    by (simp add: serve_defs step_defs)
  from h t show "get (Name ''access_token'') body
      = Inr (accessToken (fst (resume AwaitToken (axios (HttpResponse m body)) s')))"
    by (simp add: serve_defs step_defs)
qed

theorem callback_failure_leaves_token_witness:
  "reply (serve example_config (GetCallback (JStr ''abc''))
       [HttpResponse 401 (JObj [(''error'', JStr ''invalid_grant'')])] signed_in)
     = Some (Send 500 ''Authentication failed'')
   \<and> accessToken (final (serve example_config (GetCallback (JStr ''abc''))
       [HttpResponse 401 (JObj [(''error'', JStr ''invalid_grant'')])] signed_in))
     = JStr ''T''
   \<and> reply (serve example_config (GetCallback (JStr ''abc''))
       [HttpResponse 200 (JObj [(''access_token'', JNum ''42'')])] signed_in)
     = Some (Send 200 ''Authentication successful! You can close this window.'')
   \<and> accessToken (final (serve example_config (GetCallback (JStr ''abc''))
       [HttpResponse 200 (JObj [(''access_token'', JNum ''42'')])] signed_in))
     = JNum ''42''"
proof -
  have h: "(\<exists>d. HttpResponse 401 (JObj [(''error'', JStr ''invalid_grant'')]) = NetworkError d) \<or>
           (\<exists>n b. HttpResponse 401 (JObj [(''error'', JStr ''invalid_grant'')]) = HttpResponse n b
                \<and> (n < 200 \<or> 300 \<le> n \<or> b = JNull \<or> b = JUndefined))"
    by simp
  have g: "get (Name ''access_token'') (JObj [(''access_token'', JNum ''42'')]) = Inr (JNum ''42'')"
    by simp
  show ?thesis
    using h g callback_failure_leaves_token [where a = "HttpResponse 401 (JObj [(''error'', JStr ''invalid_grant'')])"
        and cfg = example_config and c = "''abc''" and rest = "[]" and s = signed_in
        and s' = signed_in and m = 200 and body = "JObj [(''access_token'', JNum ''42'')]"]
    by (auto simp: signed_in_def)
qed

text \<open>
  C3: when the token endpoint answers a \<^verbatim>\<open>/callback\<close> that has a string \<^verbatim>\<open>code\<close> with success
  and a JSON body whose \<^verbatim>\<open>access_token\<close> is the token \<^verbatim>\<open>"T"\<close> (any non-empty string), the
  handler answers 200, the token held afterwards is \<^verbatim>\<open>"T"\<close>, and an authenticated request
  made in that state issues its GET with the header \<^verbatim>\<open>Authorization: Bearer T\<close>.
\<close>

theorem callback_stores_token:
  assumes "t \<noteq> []" and "200 \<le> n" and "n < 300"
    and "map_of body ''access_token'' = Some (JStr t)"
  shows "reply (serve cfg (GetCallback (JStr c)) (HttpResponse n (JObj body) # rest) s)
           = Some (Send 200 ''Authentication successful! You can close this window.'')
       \<and> accessToken (final (serve cfg (GetCallback (JStr c)) (HttpResponse n (JObj body) # rest) s))
           = JStr t
       \<and> snd (makeAuthenticatedRequest url
              (final (serve cfg (GetCallback (JStr c)) (HttpResponse n (JObj body) # rest) s)))
           = Inr (Get url [(''Authorization'', Lit (''Bearer '' @ t)),
                           (''Content-Type'', Lit ''application/x-www-form-urlencoded'')])"
  using assms by (auto simp: serve_defs step_defs bearer_def)

theorem callback_stores_token_witness:
  "reply (serve example_config (GetCallback (JStr ''abc''))
       [HttpResponse 200 (JObj [(''access_token'', JStr ''T'')])] initial)
     = Some (Send 200 ''Authentication successful! You can close this window.'')
   \<and> accessToken (final (serve example_config (GetCallback (JStr ''abc''))
       [HttpResponse 200 (JObj [(''access_token'', JStr ''T'')])] initial)) = JStr ''T''
   \<and> snd (makeAuthenticatedRequest gamesUrl
          (final (serve example_config (GetCallback (JStr ''abc''))
             [HttpResponse 200 (JObj [(''access_token'', JStr ''T'')])] initial)))
       = Inr (Get gamesUrl [(''Authorization'', Lit ''Bearer T''),
                            (''Content-Type'', Lit ''application/x-www-form-urlencoded'')])"
  using callback_stores_token [of "''T''" 200 "[(''access_token'', JStr ''T'')]"
          example_config "''abc''" "[]" initial gamesUrl]
  by simp

text \<open>
  C4: a \<^verbatim>\<open>/callback\<close> whose \<^verbatim>\<open>code\<close> is missing or not a string is answered 400, no outbound
  call is issued and the state is unchanged.
\<close>

theorem callback_invalid_code:
  assumes "\<forall>c. code \<noteq> JStr c"
  shows "serve cfg (GetCallback code) answers s
           = (s, [], Some (Send 400 ''Invalid authorization code''))"
  using assms by (cases code) (auto simp: serve_defs step_defs)

theorem callback_invalid_code_witness:
  "serve example_config (GetCallback JUndefined) [] signed_in
     = (signed_in, [], Some (Send 400 ''Invalid authorization code''))
   \<and> serve example_config (GetCallback (JArr [JStr ''a'', JStr ''b''])) [] signed_in
     = (signed_in, [], Some (Send 400 ''Invalid authorization code''))"
  using callback_invalid_code [of JUndefined example_config "[]" signed_in]
    callback_invalid_code [of "JArr [JStr ''a'', JStr ''b'']" example_config "[]" signed_in]
  by simp

subsection \<open>The token once present\<close>

text \<open>
  C2 as the specification states it: once a token is present, no handler step makes it
  absent again. In the run below the first \<^verbatim>\<open>/callback\<close> stores \<^verbatim>\<open>"T"\<close>; the second one gets a
  2xx answer whose body has no \<^verbatim>\<open>access_token\<close>, line 62 stores \<^verbatim>\<open>undefined\<close>, and the
  \<^verbatim>\<open>/test\<close> that follows is answered 401.
\<close>

theorem token_absent_again_counterexample:
  "truthy (accessToken (current (run example_config
       [Arrives (GetCallback (JStr ''c1'')),
        Settles 0 (HttpResponse 200 (JObj [(''access_token'', JStr ''T'')]))] boot)))
   \<and> \<not> truthy (accessToken (current (run example_config
       [Arrives (GetCallback (JStr ''c1'')),
        Settles 0 (HttpResponse 200 (JObj [(''access_token'', JStr ''T'')])),
        Arrives (GetCallback (JStr ''c2'')),
        Settles 0 (HttpResponse 200 (JObj [(''token_type'', JStr ''bearer'')]))] boot)))
   \<and> answered (run example_config
       [Arrives (GetCallback (JStr ''c1'')),
        Settles 0 (HttpResponse 200 (JObj [(''access_token'', JStr ''T'')])),
        Arrives (GetCallback (JStr ''c2'')),
        Settles 0 (HttpResponse 200 (JObj [(''token_type'', JStr ''bearer'')])),
        Arrives GetTest] boot)
     = [Send 200 ''Authentication successful! You can close this window.'',
        Send 200 ''Authentication successful! You can close this window.'',
        Send 401 ''Not authenticated. Please authenticate first.'']"
  by (simp add: boot_def initial_def step_defs)

text \<open>
  The token after one step of the process: the settling of a \<^verbatim>\<open>/callback\<close> token exchange
  that resolved with a body whose \<^verbatim>\<open>access_token\<close> can be read stores that value; every
  other step leaves the token as it is.
\<close>

lemma react_token:
  "accessToken (current (react cfg e srv)) =
     (case e of
        Arrives req \<Rightarrow> accessToken (current srv)
      | Settles i a \<Rightarrow>
          (if i < length (pending srv) then
             (case (pending srv ! i, axios a) of
                (AwaitToken, Resolved d) \<Rightarrow>
                  (case get (Name ''access_token'') d of
                     Inl x \<Rightarrow> accessToken (current srv)
                   | Inr t \<Rightarrow> t)
              | _ \<Rightarrow> accessToken (current srv))
           else accessToken (current srv)))"
proof (cases e)
  case (Arrives req)
  obtain s' st where r: "start cfg req (current srv) = (s', st)"
    by (cases "start cfg req (current srv)")
  with start_keeps_token [of cfg req "current srv"]
  have "accessToken s' = accessToken (current srv)" by simp
  with r Arrives show ?thesis by (cases st) auto
next
  case (Settles i a)
  show ?thesis
  proof (cases "i < length (pending srv)")
    case False
    with Settles show ?thesis by simp
  next
    case True
    obtain s' st where r: "resume (pending srv ! i) (axios a) (current srv) = (s', st)"
      by (cases "resume (pending srv ! i) (axios a) (current srv)")
    have cur: "current (react cfg e srv) = s'"
      using Settles True r by (cases st) auto
    from resume_token [of "pending srv ! i" "axios a" "current srv"] r
    have "accessToken s' =
        (case (pending srv ! i, axios a) of
           (AwaitToken, Resolved d) \<Rightarrow>
             (case get (Name ''access_token'') d of
                Inl e \<Rightarrow> accessToken (current srv)
              | Inr t \<Rightarrow> t)
         | _ \<Rightarrow> accessToken (current srv))"
      by simp
    with cur Settles True show ?thesis by simp
  qed
qed

lemma react_stores:
  assumes "e = Settles i a" and "i < length (pending srv)" and "pending srv ! i = AwaitToken"
    and "axios a = Resolved d" and "get (Name ''access_token'') d = Inr t"
  shows "accessToken (current (react cfg e srv)) = t"
  using assms by (simp add: react_token del: react.simps)

lemma react_keeps:
  assumes "\<not> (\<exists>i a d t. e = Settles i a \<and> i < length (pending srv)
      \<and> pending srv ! i = AwaitToken \<and> axios a = Resolved d
      \<and> get (Name ''access_token'') d = Inr t)"
  shows "accessToken (current (react cfg e srv)) = accessToken (current srv)"
  using assms
  by (auto simp: react_token simp del: react.simps
      split: event.splits cont.splits outcome.splits sum.splits)

lemma react_keeps_or_clears:
  assumes "truthy (accessToken (current srv))"
  shows "truthy (accessToken (current (react cfg e srv))) \<or>
     (\<exists>i a d t. e = Settles i a \<and> i < length (pending srv) \<and> pending srv ! i = AwaitToken
        \<and> axios a = Resolved d \<and> get (Name ''access_token'') d = Inr t \<and> \<not> truthy t)"
  using assms
  by (auto simp: react_token simp del: react.simps
      split: event.splits cont.splits outcome.splits sum.splits)

text \<open>A run that starts with a token present and ends without one contains such a step.\<close>

lemma run_keeps_or_clears:
  assumes "truthy (accessToken (current srv))"
  shows "truthy (accessToken (current (run cfg es srv))) \<or>
     (\<exists>before i a after d t.
        es = before @ Settles i a # after
        \<and> i < length (pending (run cfg before srv))
        \<and> pending (run cfg before srv) ! i = AwaitToken
        \<and> axios a = Resolved d \<and> get (Name ''access_token'') d = Inr t \<and> \<not> truthy t)"
  using assms
proof (induction es arbitrary: srv)
  case Nil
  then show ?case by simp
next
  case (Cons e es)
  from react_keeps_or_clears [OF Cons.prems, of cfg e]
  consider (keeps) "truthy (accessToken (current (react cfg e srv)))"
    | (clears) i a d t where "e = Settles i a" "i < length (pending srv)"
        "pending srv ! i = AwaitToken" "axios a = Resolved d"
        "get (Name ''access_token'') d = Inr t" "\<not> truthy t"
    by blast
  then show ?case
  proof cases
    case keeps
    from Cons.IH [OF keeps]
    consider "truthy (accessToken (current (run cfg es (react cfg e srv))))"
      | before i a after d t where "es = before @ Settles i a # after"
          "i < length (pending (run cfg before (react cfg e srv)))"
          "pending (run cfg before (react cfg e srv)) ! i = AwaitToken"
          "axios a = Resolved d" "get (Name ''access_token'') d = Inr t" "\<not> truthy t"
      by blast
    then show ?thesis
    proof cases
      case 1
      then show ?thesis by simp
    next
      case 2
      have "e # es = (e # before) @ Settles i a # after"
        using 2(1) by simp
      moreover have "run cfg (e # before) srv = run cfg before (react cfg e srv)"
        by simp
      ultimately show ?thesis
        using 2 by metis
    qed
  next
    case clears
    have "e # es = [] @ Settles i a # es"
      using clears(1) by simp
    moreover have "run cfg [] srv = srv"
      by simp
    ultimately show ?thesis
      using clears by metis
  qed
qed

text \<open>
  C2, amended: the one handler step that writes the token is the completion of a
  \<^verbatim>\<open>/callback\<close> whose token exchange resolved (2xx) with a body whose \<^verbatim>\<open>access_token\<close> can be
  read; it stores exactly that value, so a truthy value replaces the token with that
  present value, and a falsy one (the field missing, empty, ...) makes the token absent
  again, with no restart. No other step of any handler changes the token. Hence, once a
  token is present, it is present after every run of the process (requests arriving,
  outbound calls of suspended handlers settling, in any interleaving) that contains no
  completion of a \<^verbatim>\<open>/callback\<close> with a falsy \<^verbatim>\<open>access_token\<close>.
\<close>

theorem token_cleared_only_by_callback:
  "(e = Settles i a \<and> i < length (pending srv) \<and> pending srv ! i = AwaitToken
      \<and> axios a = Resolved d \<and> get (Name ''access_token'') d = Inr t \<longrightarrow>
        accessToken (current (react cfg e srv)) = t)
   \<and> (\<not> (\<exists>i a d t. e = Settles i a \<and> i < length (pending srv)
          \<and> pending srv ! i = AwaitToken \<and> axios a = Resolved d
          \<and> get (Name ''access_token'') d = Inr t) \<longrightarrow>
        accessToken (current (react cfg e srv)) = accessToken (current srv))
   \<and> (truthy (accessToken (current srv)) \<longrightarrow>
        truthy (accessToken (current (run cfg es srv))) \<or>
        (\<exists>before i a after d t.
           es = before @ Settles i a # after
           \<and> i < length (pending (run cfg before srv))
           \<and> pending (run cfg before srv) ! i = AwaitToken
           \<and> axios a = Resolved d \<and> get (Name ''access_token'') d = Inr t \<and> \<not> truthy t))"
  using react_stores [of e i a srv d t cfg] react_keeps [of e srv cfg]
    run_keeps_or_clears [of srv cfg es]
  by blast

theorem token_cleared_only_by_callback_witness:
  "accessToken (current example_server) = JStr ''T''
   \<and> accessToken (current (react example_config
        (Settles 1 (HttpResponse 200 (JObj [(''access_token'', JStr ''U'')]))) example_server))
       = JStr ''U''
   \<and> accessToken (current (react example_config
        (Settles 1 (HttpResponse 200 (JObj [(''token_type'', JStr ''bearer'')]))) example_server))
       = JUndefined
   \<and> accessToken (current (react example_config
        (Settles 0 (HttpResponse 200 (JObj [(''access_token'', JStr ''U'')]))) example_server))
       = JStr ''T''
   \<and> accessToken (current (react example_config (Arrives GetNhlTeams) example_server))
       = JStr ''T''
   \<and> truthy (accessToken (current (run example_config
        [Arrives GetTest,
         Settles 1 (HttpResponse 200 (JObj [(''access_token'', JStr ''U'')])),
         Settles 0 (NetworkError ''ECONNRESET''),
         Arrives (GetCallback (JStr ''c'')),
         Settles 1 (HttpResponse 401 JNull)]
        example_server)))"
proof -
  have tok: "accessToken (current example_server) = JStr ''T''"
    by (simp add: example_server_def signed_in_def)
  have pend: "pending example_server = [AwaitTest, AwaitToken]"
    by (simp add: example_server_def)
  have stores: "accessToken (current (react example_config
        (Settles 1 (HttpResponse 200 (JObj [(''access_token'', JStr ''U'')]))) example_server))
       = JStr ''U''"
    using token_cleared_only_by_callback [where e = "Settles 1 (HttpResponse 200 (JObj [(''access_token'', JStr ''U'')]))"
        and i = 1 and a = "HttpResponse 200 (JObj [(''access_token'', JStr ''U'')])"
        and srv = example_server and d = "JObj [(''access_token'', JStr ''U'')]"
        and t = "JStr ''U''" and cfg = example_config and es = "[]"]
    by (simp add: pend)
  have clears: "accessToken (current (react example_config
        (Settles 1 (HttpResponse 200 (JObj [(''token_type'', JStr ''bearer'')]))) example_server))
       = JUndefined"
    using token_cleared_only_by_callback [where e = "Settles 1 (HttpResponse 200 (JObj [(''token_type'', JStr ''bearer'')]))"
        and i = 1 and a = "HttpResponse 200 (JObj [(''token_type'', JStr ''bearer'')])"
        and srv = example_server and d = "JObj [(''token_type'', JStr ''bearer'')]"
        and t = JUndefined and cfg = example_config and es = "[]"]
    by (simp add: pend)
  have other: "accessToken (current (react example_config
        (Settles 0 (HttpResponse 200 (JObj [(''access_token'', JStr ''U'')]))) example_server))
       = JStr ''T''"
    using token_cleared_only_by_callback [where e = "Settles 0 (HttpResponse 200 (JObj [(''access_token'', JStr ''U'')]))"
        and srv = example_server and cfg = example_config and es = "[]"]
    by (simp add: pend tok)
  have arrives: "accessToken (current (react example_config (Arrives GetNhlTeams) example_server))
       = JStr ''T''"
    using token_cleared_only_by_callback [where e = "Arrives GetNhlTeams"
        and srv = example_server and cfg = example_config and es = "[]"]
    by (simp add: tok)
  have runs: "truthy (accessToken (current (run example_config
        [Arrives GetTest,
         Settles 1 (HttpResponse 200 (JObj [(''access_token'', JStr ''U'')])),
         Settles 0 (NetworkError ''ECONNRESET''),
         Arrives (GetCallback (JStr ''c'')),
         Settles 1 (HttpResponse 401 JNull)]
        example_server)))"
    by (simp add: step_defs example_server_def signed_in_def)
  show ?thesis
    using tok stores clears other arrives runs by simp
qed

subsection \<open>The data routes and the helper\<close>

text \<open>
  C5: each of the four data routes (\<^verbatim>\<open>/test\<close>, \<^verbatim>\<open>/nhl-leagues\<close>, \<^verbatim>\<open>/nhl-matchups\<close>, \<^verbatim>\<open>/nhl-teams\<close>),
  invoked while no token is present, answers 401 with the fixed message and issues no
  outbound call.
\<close>

theorem data_route_unauthenticated:
  assumes "data_route req" and "\<not> truthy (accessToken s)"
  shows "serve cfg req answers s
           = (s, [], Some (Send 401 ''Not authenticated. Please authenticate first.''))"
  using assms by (cases req) (auto simp: serve_defs step_defs)

theorem data_route_unauthenticated_witness:
  "serve example_config GetTest [HttpResponse 200 JNull] initial
     = (initial, [], Some (Send 401 ''Not authenticated. Please authenticate first.''))
   \<and> serve example_config GetNhlLeagues [HttpResponse 200 JNull] initial
     = (initial, [], Some (Send 401 ''Not authenticated. Please authenticate first.''))
   \<and> serve example_config (GetNhlMatchups (JStr ''3'')) [HttpResponse 200 JNull] initial
     = (initial, [], Some (Send 401 ''Not authenticated. Please authenticate first.''))
   \<and> serve example_config GetNhlTeams [HttpResponse 200 JNull] initial
     = (initial, [], Some (Send 401 ''Not authenticated. Please authenticate first.''))"
  using data_route_unauthenticated [of GetTest initial example_config "[HttpResponse 200 JNull]"]
    data_route_unauthenticated [of GetNhlLeagues initial example_config "[HttpResponse 200 JNull]"]
    data_route_unauthenticated [of "GetNhlMatchups (JStr ''3'')" initial example_config
      "[HttpResponse 200 JNull]"]
    data_route_unauthenticated [of GetNhlTeams initial example_config "[HttpResponse 200 JNull]"]
  by (simp add: initial_def)

text \<open>
  C6: \<^verbatim>\<open>makeAuthenticatedRequest\<close>, invoked while no token is present, throws the error
  \<^verbatim>\<open>Not authenticated\<close> at once: it returns the error instead of a call to issue, and the
  state, log included, is as before.
\<close>

theorem helper_unauthenticated:
  assumes "\<not> truthy (accessToken s)"
  shows "makeAuthenticatedRequest url s = (s, Inl (Error ''Not authenticated''))"
  using assms by (simp add: makeAuthenticatedRequest_def)

theorem helper_unauthenticated_witness:
  "makeAuthenticatedRequest gamesUrl initial = (initial, Inl (Error ''Not authenticated''))
   \<and> makeAuthenticatedRequest gamesUrl \<lparr>accessToken = JStr [], console = []\<rparr>
       = (\<lparr>accessToken = JStr [], console = []\<rparr>, Inl (Error ''Not authenticated''))"
  using helper_unauthenticated [of initial gamesUrl]
    helper_unauthenticated [of "\<lparr>accessToken = JStr [], console = []\<rparr>" gamesUrl]
  by (simp add: initial_def)

text \<open>
  What \<^verbatim>\<open>/nhl-matchups\<close> and \<^verbatim>\<open>/nhl-teams\<close> send, with a token present that has the string
  form \<open>t\<close>: first the league list; then, according to how that call ends, one call scoped
  to the league whose key was read, or nothing more.
\<close>

lemma first_call_is_league_list:
  assumes "truthy (accessToken s)" and "toString (accessToken s) = Inr t"
  shows "take 1 (issued (serve cfg (GetNhlMatchups week) answers s))
           = [Get ''https://fantasysports.yahooapis.com/fantasy/v2/users;use_login=1/games;game_keys=nhl/leagues?format=json''
                [(''Authorization'', Lit (''Bearer '' @ t)),
                 (''Content-Type'', Lit ''application/x-www-form-urlencoded'')]]"
    and "take 1 (issued (serve cfg GetNhlTeams answers s))
           = [Get ''https://fantasysports.yahooapis.com/fantasy/v2/users;use_login=1/games;game_keys=nhl/leagues?format=json''
                [(''Authorization'', Lit (''Bearer '' @ t)),
                 (''Content-Type'', Lit ''application/x-www-form-urlencoded'')]]"
  using assms
  by (cases answers; auto simp: serve_defs step_defs leaguesUrl_def bearer_def Let_def
      split: prod.splits)+

lemma second_call_scoped:
  assumes "truthy (accessToken s)" and "toString (accessToken s) = Inr t"
    and "200 \<le> n" and "n < 300"
    and "follow league_key_path leaguesData = Inr leagueKey" and "toString leagueKey = Inr lk"
  shows "toString (js_or week (JStr ''current'')) = Inr w \<Longrightarrow>
         issued (serve cfg (GetNhlMatchups week) (HttpResponse n leaguesData # a # rest) s)
           = [Get ''https://fantasysports.yahooapis.com/fantasy/v2/users;use_login=1/games;game_keys=nhl/leagues?format=json''
                [(''Authorization'', Lit (''Bearer '' @ t)),
                 (''Content-Type'', Lit ''application/x-www-form-urlencoded'')],
              Get (''https://fantasysports.yahooapis.com/fantasy/v2/league/'' @ lk
                     @ ''/scoreboard;week='' @ w @ ''?format=json'')
                [(''Authorization'', Lit (''Bearer '' @ t)),
                 (''Content-Type'', Lit ''application/x-www-form-urlencoded'')]]"
    and "issued (serve cfg GetNhlTeams (HttpResponse n leaguesData # a # rest) s)
           = [Get ''https://fantasysports.yahooapis.com/fantasy/v2/users;use_login=1/games;game_keys=nhl/leagues?format=json''
                [(''Authorization'', Lit (''Bearer '' @ t)),
                 (''Content-Type'', Lit ''application/x-www-form-urlencoded'')],
              Get (''https://fantasysports.yahooapis.com/fantasy/v2/league/'' @ lk
                     @ ''/teams?format=json'')
                [(''Authorization'', Lit (''Bearer '' @ t)),
                 (''Content-Type'', Lit ''application/x-www-form-urlencoded'')]]"
  using assms
  by (cases "axios a";
      auto simp: serve_defs step_defs leaguesUrl_def bearer_def scoreboardUrl_def teamsUrl_def)+

lemma second_call_body_relayed:
  assumes "truthy (accessToken s)" and "toString (accessToken s) = Inr t"
    and "200 \<le> n" and "n < 300"
    and "follow league_key_path leaguesData = Inr leagueKey" and "toString leagueKey = Inr lk"
    and "200 \<le> m" and "m < 300"
  shows "toString (js_or week (JStr ''current'')) = Inr w \<Longrightarrow>
         reply (serve cfg (GetNhlMatchups week)
           (HttpResponse n leaguesData # HttpResponse m d # rest) s) = Some (Json 200 d)"
    and "reply (serve cfg GetNhlTeams
           (HttpResponse n leaguesData # HttpResponse m d # rest) s) = Some (Json 200 d)"
  using assms by (auto simp: serve_defs step_defs)

lemma league_list_rejected:
  assumes "truthy (accessToken s)" and "toString (accessToken s) = Inr t"
    and "axios a = Rejected e"
  shows "issued (serve cfg (GetNhlMatchups week) (a # rest) s)
           = [Get ''https://fantasysports.yahooapis.com/fantasy/v2/users;use_login=1/games;game_keys=nhl/leagues?format=json''
                [(''Authorization'', Lit (''Bearer '' @ t)),
                 (''Content-Type'', Lit ''application/x-www-form-urlencoded'')]]"
    and "reply (serve cfg (GetNhlMatchups week) (a # rest) s)
           = Some (Send 500 ''Error fetching NHL matchup information'')"
    and "issued (serve cfg GetNhlTeams (a # rest) s)
           = [Get ''https://fantasysports.yahooapis.com/fantasy/v2/users;use_login=1/games;game_keys=nhl/leagues?format=json''
                [(''Authorization'', Lit (''Bearer '' @ t)),
                 (''Content-Type'', Lit ''application/x-www-form-urlencoded'')]]"
    and "reply (serve cfg GetNhlTeams (a # rest) s)
           = Some (Send 500 ''Error fetching NHL team information'')"
  using assms by (auto simp: serve_defs step_defs leaguesUrl_def bearer_def Let_def)

lemma league_list_unreadable:
  assumes "truthy (accessToken s)" and "toString (accessToken s) = Inr t"
    and "200 \<le> n" and "n < 300"
    and "follow league_key_path bad = Inl e \<or>
         (\<exists>k. follow league_key_path bad = Inr k \<and> toString k = Inl e)"
  shows "issued (serve cfg (GetNhlMatchups week) (HttpResponse n bad # rest) s)
           = [Get ''https://fantasysports.yahooapis.com/fantasy/v2/users;use_login=1/games;game_keys=nhl/leagues?format=json''
                [(''Authorization'', Lit (''Bearer '' @ t)),
                 (''Content-Type'', Lit ''application/x-www-form-urlencoded'')]]"
    and "reply (serve cfg (GetNhlMatchups week) (HttpResponse n bad # rest) s)
           = Some (Send 500 ''Error fetching NHL matchup information'')"
    and "issued (serve cfg GetNhlTeams (HttpResponse n bad # rest) s)
           = [Get ''https://fantasysports.yahooapis.com/fantasy/v2/users;use_login=1/games;game_keys=nhl/leagues?format=json''
                [(''Authorization'', Lit (''Bearer '' @ t)),
                 (''Content-Type'', Lit ''application/x-www-form-urlencoded'')]]"
    and "reply (serve cfg GetNhlTeams (HttpResponse n bad # rest) s)
           = Some (Send 500 ''Error fetching NHL team information'')"
  using assms by (auto simp: serve_defs step_defs leaguesUrl_def bearer_def Let_def)

lemma league_list_arrives_token_absent:
  assumes "\<not> truthy (accessToken s')" and "follow league_key_path leaguesData = Inr leagueKey"
    and "toString leagueKey = Inr lk"
  shows "toString week' = Inr w \<Longrightarrow>
         snd (resume (AwaitMatchupsLeagues week') (Resolved leaguesData) s')
           = Done (Send 500 ''Error fetching NHL matchup information'')"
    and "snd (resume AwaitTeamsLeagues (Resolved leaguesData) s')
           = Done (Send 500 ''Error fetching NHL team information'')"
  using assms by (auto simp: step_defs)

lemma league_list_arrives_token_present:
  assumes "truthy (accessToken s')" and "toString (accessToken s') = Inr t'"
    and "follow league_key_path leaguesData = Inr leagueKey" and "toString leagueKey = Inr lk"
  shows "toString week' = Inr w \<Longrightarrow>
         resume (AwaitMatchupsLeagues week') (Resolved leaguesData) s'
           = (s', Await
               (Get (''https://fantasysports.yahooapis.com/fantasy/v2/league/'' @ lk
                       @ ''/scoreboard;week='' @ w @ ''?format=json'')
                  [(''Authorization'', Lit (''Bearer '' @ t')),
                   (''Content-Type'', Lit ''application/x-www-form-urlencoded'')])
               AwaitMatchups)"
    and "resume AwaitTeamsLeagues (Resolved leaguesData) s'
           = (s', Await
               (Get (''https://fantasysports.yahooapis.com/fantasy/v2/league/'' @ lk
                       @ ''/teams?format=json'')
                  [(''Authorization'', Lit (''Bearer '' @ t')),
                   (''Content-Type'', Lit ''application/x-www-form-urlencoded'')])
               AwaitTeams)"
  using assms by (auto simp: step_defs bearer_def scoreboardUrl_def teamsUrl_def)

text \<open>
  C7 as the specification states it: every \<^verbatim>\<open>/nhl-matchups\<close> or \<^verbatim>\<open>/nhl-teams\<close> invoked with a
  token present fetches the league list, reads the first league's key and then issues
  exactly one second call scoped to that league. With the token \<^verbatim>\<open>"T"\<close> present, a league
  list answered 503, or answered 200 with the body \<^verbatim>\<open>{}\<close>, ends in the \<^verbatim>\<open>catch\<close> block: the
  league list is the only call issued and the answer is 500, though a second answer was
  ready.
\<close>

theorem league_scoped_second_call_counterexample:
  "truthy (accessToken signed_in)
   \<and> issued (serve example_config (GetNhlMatchups JUndefined)
        [HttpResponse 503 (JStr ''Service Unavailable''), HttpResponse 200 (JObj [(''scoreboard'', JNull)])] signed_in)
       = [Get ''https://fantasysports.yahooapis.com/fantasy/v2/users;use_login=1/games;game_keys=nhl/leagues?format=json''
          [(''Authorization'', Lit ''Bearer T''),
           (''Content-Type'', Lit ''application/x-www-form-urlencoded'')]]
   \<and> reply (serve example_config (GetNhlMatchups JUndefined)
        [HttpResponse 503 (JStr ''Service Unavailable''), HttpResponse 200 (JObj [(''scoreboard'', JNull)])] signed_in)
       = Some (Send 500 ''Error fetching NHL matchup information'')
   \<and> issued (serve example_config GetNhlTeams
        [HttpResponse 200 (JObj []), HttpResponse 200 (JObj [(''scoreboard'', JNull)])] signed_in)
       = [Get ''https://fantasysports.yahooapis.com/fantasy/v2/users;use_login=1/games;game_keys=nhl/leagues?format=json''
          [(''Authorization'', Lit ''Bearer T''),
           (''Content-Type'', Lit ''application/x-www-form-urlencoded'')]]
   \<and> reply (serve example_config GetNhlTeams
        [HttpResponse 200 (JObj []), HttpResponse 200 (JObj [(''scoreboard'', JNull)])] signed_in)
       = Some (Send 500 ''Error fetching NHL team information'')"
  by (simp add: serve_defs step_defs signed_in_def leaguesUrl_def bearer_def js_or_def
      league_key_path_def)

text \<open>
  C7, amended: \<^verbatim>\<open>/nhl-matchups\<close> and \<^verbatim>\<open>/nhl-teams\<close>, invoked with a token present that has a
  string form, first fetch the league list with that bearer token. When that call answers
  2xx, the key of the first league can be read from the body along the fixed path
  \<^verbatim>\<open>fantasy_content.users[0].user[1].games[0].game[1].leagues[0].league[0].league_key\<close>, and
  the key and the week have a string form, exactly one further authenticated call is
  issued, to the scoreboard or the teams of that league, and when it answers 2xx its body
  is the response. When the league list call fails, or the key cannot be read from its
  body or has no string form, no second call is issued and the answer is the 500 of the
  route. The second call carries the token present when the league list arrives; when
  none is present then, no second call is issued and the answer is the 500 of the route.
\<close>

theorem league_scoped_second_call:
  assumes "truthy (accessToken s)" and "toString (accessToken s) = Inr t"
  shows "take 1 (issued (serve cfg (GetNhlMatchups week) answers s)) = [Get ''https://fantasysports.yahooapis.com/fantasy/v2/users;use_login=1/games;game_keys=nhl/leagues?format=json''
                [(''Authorization'', Lit (''Bearer '' @ t)),
                 (''Content-Type'', Lit ''application/x-www-form-urlencoded'')]]
       \<and> take 1 (issued (serve cfg GetNhlTeams answers s)) = [Get ''https://fantasysports.yahooapis.com/fantasy/v2/users;use_login=1/games;game_keys=nhl/leagues?format=json''
                [(''Authorization'', Lit (''Bearer '' @ t)),
                 (''Content-Type'', Lit ''application/x-www-form-urlencoded'')]]
       \<and> (200 \<le> n \<and> n < 300 \<and> follow league_key_path leaguesData = Inr leagueKey
            \<and> toString leagueKey = Inr lk \<and> toString (js_or week (JStr ''current'')) = Inr w \<longrightarrow>
            issued (serve cfg (GetNhlMatchups week) (HttpResponse n leaguesData # a # rest) s)
              = [Get ''https://fantasysports.yahooapis.com/fantasy/v2/users;use_login=1/games;game_keys=nhl/leagues?format=json''
                [(''Authorization'', Lit (''Bearer '' @ t)),
                 (''Content-Type'', Lit ''application/x-www-form-urlencoded'')],
                 Get (''https://fantasysports.yahooapis.com/fantasy/v2/league/'' @ lk
                        @ ''/scoreboard;week='' @ w @ ''?format=json'')
                   [(''Authorization'', Lit (''Bearer '' @ t)),
                 (''Content-Type'', Lit ''application/x-www-form-urlencoded'')]]
          \<and> issued (serve cfg GetNhlTeams (HttpResponse n leaguesData # a # rest) s)
              = [Get ''https://fantasysports.yahooapis.com/fantasy/v2/users;use_login=1/games;game_keys=nhl/leagues?format=json''
                [(''Authorization'', Lit (''Bearer '' @ t)),
                 (''Content-Type'', Lit ''application/x-www-form-urlencoded'')],
                 Get (''https://fantasysports.yahooapis.com/fantasy/v2/league/'' @ lk
                        @ ''/teams?format=json'')
                   [(''Authorization'', Lit (''Bearer '' @ t)),
                 (''Content-Type'', Lit ''application/x-www-form-urlencoded'')]])
       \<and> (200 \<le> n \<and> n < 300 \<and> follow league_key_path leaguesData = Inr leagueKey
            \<and> toString leagueKey = Inr lk \<and> toString (js_or week (JStr ''current'')) = Inr w
            \<and> 200 \<le> m \<and> m < 300 \<longrightarrow>
            reply (serve cfg (GetNhlMatchups week)
              (HttpResponse n leaguesData # HttpResponse m d # rest) s) = Some (Json 200 d)
          \<and> reply (serve cfg GetNhlTeams
              (HttpResponse n leaguesData # HttpResponse m d # rest) s) = Some (Json 200 d))
       \<and> (axios a' = Rejected e \<longrightarrow>
            length (issued (serve cfg (GetNhlMatchups week) (a' # rest) s)) = 1
          \<and> reply (serve cfg (GetNhlMatchups week) (a' # rest) s)
              = Some (Send 500 ''Error fetching NHL matchup information'')
          \<and> length (issued (serve cfg GetNhlTeams (a' # rest) s)) = 1
          \<and> reply (serve cfg GetNhlTeams (a' # rest) s)
              = Some (Send 500 ''Error fetching NHL team information''))
       \<and> (200 \<le> n' \<and> n' < 300
            \<and> (follow league_key_path bad = Inl e'
                \<or> (\<exists>k. follow league_key_path bad = Inr k \<and> toString k = Inl e')) \<longrightarrow>
            length (issued (serve cfg (GetNhlMatchups week) (HttpResponse n' bad # rest) s)) = 1
          \<and> reply (serve cfg (GetNhlMatchups week) (HttpResponse n' bad # rest) s)
              = Some (Send 500 ''Error fetching NHL matchup information'')
          \<and> length (issued (serve cfg GetNhlTeams (HttpResponse n' bad # rest) s)) = 1
          \<and> reply (serve cfg GetNhlTeams (HttpResponse n' bad # rest) s)
              = Some (Send 500 ''Error fetching NHL team information''))
       \<and> (truthy (accessToken s') \<and> toString (accessToken s') = Inr t'
            \<and> follow league_key_path leaguesData = Inr leagueKey \<and> toString leagueKey = Inr lk
            \<and> toString week' = Inr w' \<longrightarrow>
            resume (AwaitMatchupsLeagues week') (Resolved leaguesData) s'
              = (s', Await
                  (Get (''https://fantasysports.yahooapis.com/fantasy/v2/league/'' @ lk
                          @ ''/scoreboard;week='' @ w' @ ''?format=json'')
                     [(''Authorization'', Lit (''Bearer '' @ t')),
                 (''Content-Type'', Lit ''application/x-www-form-urlencoded'')])
                  AwaitMatchups)
          \<and> resume AwaitTeamsLeagues (Resolved leaguesData) s'
              = (s', Await
                  (Get (''https://fantasysports.yahooapis.com/fantasy/v2/league/'' @ lk
                          @ ''/teams?format=json'')
                     [(''Authorization'', Lit (''Bearer '' @ t')),
                 (''Content-Type'', Lit ''application/x-www-form-urlencoded'')])
                  AwaitTeams))
       \<and> (\<not> truthy (accessToken s'') \<and> follow league_key_path leaguesData = Inr leagueKey
            \<and> toString leagueKey = Inr lk \<and> toString week' = Inr w' \<longrightarrow>
            snd (resume (AwaitMatchupsLeagues week') (Resolved leaguesData) s'')
              = Done (Send 500 ''Error fetching NHL matchup information'')
          \<and> snd (resume AwaitTeamsLeagues (Resolved leaguesData) s'')
              = Done (Send 500 ''Error fetching NHL team information''))"
proof (intro conjI impI)
  show "take 1 (issued (serve cfg (GetNhlMatchups week) answers s)) = [Get ''https://fantasysports.yahooapis.com/fantasy/v2/users;use_login=1/games;game_keys=nhl/leagues?format=json''
                [(''Authorization'', Lit (''Bearer '' @ t)),
                 (''Content-Type'', Lit ''application/x-www-form-urlencoded'')]]"
    using first_call_is_league_list(1) [OF assms] .
  show "take 1 (issued (serve cfg GetNhlTeams answers s)) = [Get ''https://fantasysports.yahooapis.com/fantasy/v2/users;use_login=1/games;game_keys=nhl/leagues?format=json''
                [(''Authorization'', Lit (''Bearer '' @ t)),
                 (''Content-Type'', Lit ''application/x-www-form-urlencoded'')]]"
    using first_call_is_league_list(2) [OF assms] .
next
  assume h: "200 \<le> n \<and> n < 300 \<and> follow league_key_path leaguesData = Inr leagueKey
    \<and> toString leagueKey = Inr lk \<and> toString (js_or week (JStr ''current'')) = Inr w"
  then show "issued (serve cfg (GetNhlMatchups week) (HttpResponse n leaguesData # a # rest) s)
      = [Get ''https://fantasysports.yahooapis.com/fantasy/v2/users;use_login=1/games;game_keys=nhl/leagues?format=json''
                [(''Authorization'', Lit (''Bearer '' @ t)),
                 (''Content-Type'', Lit ''application/x-www-form-urlencoded'')],
         Get (''https://fantasysports.yahooapis.com/fantasy/v2/league/'' @ lk
                @ ''/scoreboard;week='' @ w @ ''?format=json'')
           [(''Authorization'', Lit (''Bearer '' @ t)),
                 (''Content-Type'', Lit ''application/x-www-form-urlencoded'')]]"
    using second_call_scoped(1) [OF assms] by blast
  from h show "issued (serve cfg GetNhlTeams (HttpResponse n leaguesData # a # rest) s)
      = [Get ''https://fantasysports.yahooapis.com/fantasy/v2/users;use_login=1/games;game_keys=nhl/leagues?format=json''
                [(''Authorization'', Lit (''Bearer '' @ t)),
                 (''Content-Type'', Lit ''application/x-www-form-urlencoded'')],
         Get (''https://fantasysports.yahooapis.com/fantasy/v2/league/'' @ lk
                @ ''/teams?format=json'')
           [(''Authorization'', Lit (''Bearer '' @ t)),
                 (''Content-Type'', Lit ''application/x-www-form-urlencoded'')]]"
    using second_call_scoped(2) [OF assms] by blast
next
  assume h: "200 \<le> n \<and> n < 300 \<and> follow league_key_path leaguesData = Inr leagueKey
    \<and> toString leagueKey = Inr lk \<and> toString (js_or week (JStr ''current'')) = Inr w
    \<and> 200 \<le> m \<and> m < 300"
  then show "reply (serve cfg (GetNhlMatchups week)
      (HttpResponse n leaguesData # HttpResponse m d # rest) s) = Some (Json 200 d)"
    using second_call_body_relayed(1) [OF assms] by blast
  from h show "reply (serve cfg GetNhlTeams
      (HttpResponse n leaguesData # HttpResponse m d # rest) s) = Some (Json 200 d)"
    using second_call_body_relayed(2) [OF assms] by blast
next
  assume h: "axios a' = Rejected e"
  show "length (issued (serve cfg (GetNhlMatchups week) (a' # rest) s)) = 1"
    using league_list_rejected(1) [OF assms h] by simp
  show "reply (serve cfg (GetNhlMatchups week) (a' # rest) s)
      = Some (Send 500 ''Error fetching NHL matchup information'')"
    using league_list_rejected(2) [OF assms h] .
  show "length (issued (serve cfg GetNhlTeams (a' # rest) s)) = 1"
    using league_list_rejected(3) [OF assms h] by simp
  show "reply (serve cfg GetNhlTeams (a' # rest) s)
      = Some (Send 500 ''Error fetching NHL team information'')"
    using league_list_rejected(4) [OF assms h] .
next
  assume h: "200 \<le> n' \<and> n' < 300
    \<and> (follow league_key_path bad = Inl e'
        \<or> (\<exists>k. follow league_key_path bad = Inr k \<and> toString k = Inl e'))"
  then have n: "200 \<le> n'" "n' < 300"
    and b: "follow league_key_path bad = Inl e'
        \<or> (\<exists>k. follow league_key_path bad = Inr k \<and> toString k = Inl e')"
    by blast+
  show "length (issued (serve cfg (GetNhlMatchups week) (HttpResponse n' bad # rest) s)) = 1"
    using league_list_unreadable(1) [OF assms n b] by simp
  show "reply (serve cfg (GetNhlMatchups week) (HttpResponse n' bad # rest) s)
      = Some (Send 500 ''Error fetching NHL matchup information'')"
    using league_list_unreadable(2) [OF assms n b] .
  show "length (issued (serve cfg GetNhlTeams (HttpResponse n' bad # rest) s)) = 1"
    using league_list_unreadable(3) [OF assms n b] by simp
  show "reply (serve cfg GetNhlTeams (HttpResponse n' bad # rest) s)
      = Some (Send 500 ''Error fetching NHL team information'')"
    using league_list_unreadable(4) [OF assms n b] .
next
  assume h: "truthy (accessToken s') \<and> toString (accessToken s') = Inr t'
    \<and> follow league_key_path leaguesData = Inr leagueKey \<and> toString leagueKey = Inr lk
    \<and> toString week' = Inr w'"
  then show "resume (AwaitMatchupsLeagues week') (Resolved leaguesData) s'
      = (s', Await
          (Get (''https://fantasysports.yahooapis.com/fantasy/v2/league/'' @ lk
                  @ ''/scoreboard;week='' @ w' @ ''?format=json'')
             [(''Authorization'', Lit (''Bearer '' @ t')),
                 (''Content-Type'', Lit ''application/x-www-form-urlencoded'')])
          AwaitMatchups)"
    using league_list_arrives_token_present(1) by blast
  from h show "resume AwaitTeamsLeagues (Resolved leaguesData) s'
      = (s', Await
          (Get (''https://fantasysports.yahooapis.com/fantasy/v2/league/'' @ lk
                  @ ''/teams?format=json'')
             [(''Authorization'', Lit (''Bearer '' @ t')),
                 (''Content-Type'', Lit ''application/x-www-form-urlencoded'')])
          AwaitTeams)"
    using league_list_arrives_token_present(2) by blast
next
  assume h: "\<not> truthy (accessToken s'') \<and> follow league_key_path leaguesData = Inr leagueKey
    \<and> toString leagueKey = Inr lk \<and> toString week' = Inr w'"
  then show "snd (resume (AwaitMatchupsLeagues week') (Resolved leaguesData) s'')
      = Done (Send 500 ''Error fetching NHL matchup information'')"
    using league_list_arrives_token_absent(1) by blast
  from h show "snd (resume AwaitTeamsLeagues (Resolved leaguesData) s'')
      = Done (Send 500 ''Error fetching NHL team information'')"
    using league_list_arrives_token_absent(2) by blast
qed

theorem league_scoped_second_call_witness:
  "take 1 (issued (serve example_config (GetNhlMatchups (JStr ''7'')) [] signed_in)) = [Get ''https://fantasysports.yahooapis.com/fantasy/v2/users;use_login=1/games;game_keys=nhl/leagues?format=json''
          [(''Authorization'', Lit ''Bearer T''),
           (''Content-Type'', Lit ''application/x-www-form-urlencoded'')]]
   \<and> take 1 (issued (serve example_config GetNhlTeams [] signed_in)) = [Get ''https://fantasysports.yahooapis.com/fantasy/v2/users;use_login=1/games;game_keys=nhl/leagues?format=json''
          [(''Authorization'', Lit ''Bearer T''),
           (''Content-Type'', Lit ''application/x-www-form-urlencoded'')]]
   \<and> issued (serve example_config (GetNhlMatchups (JStr ''7''))
        [HttpResponse 200 example_leagues, HttpResponse 200 (JObj [(''scoreboard'', JNull)])] signed_in)
       = [Get ''https://fantasysports.yahooapis.com/fantasy/v2/users;use_login=1/games;game_keys=nhl/leagues?format=json''
          [(''Authorization'', Lit ''Bearer T''),
           (''Content-Type'', Lit ''application/x-www-form-urlencoded'')],
          Get ''https://fantasysports.yahooapis.com/fantasy/v2/league/453.l.1234/scoreboard;week=7?format=json''
            [(''Authorization'', Lit ''Bearer T''),
           (''Content-Type'', Lit ''application/x-www-form-urlencoded'')]]
   \<and> issued (serve example_config GetNhlTeams
        [HttpResponse 200 example_leagues, HttpResponse 200 (JObj [(''scoreboard'', JNull)])] signed_in)
       = [Get ''https://fantasysports.yahooapis.com/fantasy/v2/users;use_login=1/games;game_keys=nhl/leagues?format=json''
          [(''Authorization'', Lit ''Bearer T''),
           (''Content-Type'', Lit ''application/x-www-form-urlencoded'')],
          Get ''https://fantasysports.yahooapis.com/fantasy/v2/league/453.l.1234/teams?format=json''
            [(''Authorization'', Lit ''Bearer T''),
           (''Content-Type'', Lit ''application/x-www-form-urlencoded'')]]
   \<and> reply (serve example_config (GetNhlMatchups (JStr ''7''))
        [HttpResponse 200 example_leagues, HttpResponse 200 (JObj [(''scoreboard'', JNull)])] signed_in)
       = Some (Json 200 (JObj [(''scoreboard'', JNull)]))
   \<and> reply (serve example_config GetNhlTeams
        [HttpResponse 200 example_leagues, HttpResponse 200 (JObj [(''scoreboard'', JNull)])] signed_in)
       = Some (Json 200 (JObj [(''scoreboard'', JNull)]))
   \<and> length (issued (serve example_config (GetNhlMatchups (JStr ''7''))
        [NetworkError ''ECONNRESET''] signed_in)) = 1
   \<and> reply (serve example_config (GetNhlMatchups (JStr ''7''))
        [NetworkError ''ECONNRESET''] signed_in)
       = Some (Send 500 ''Error fetching NHL matchup information'')
   \<and> length (issued (serve example_config GetNhlTeams
        [NetworkError ''ECONNRESET''] signed_in)) = 1
   \<and> reply (serve example_config GetNhlTeams [NetworkError ''ECONNRESET''] signed_in)
       = Some (Send 500 ''Error fetching NHL team information'')
   \<and> length (issued (serve example_config (GetNhlMatchups (JStr ''7''))
        [HttpResponse 200 (JObj [])] signed_in)) = 1
   \<and> reply (serve example_config (GetNhlMatchups (JStr ''7''))
        [HttpResponse 200 (JObj [])] signed_in)
       = Some (Send 500 ''Error fetching NHL matchup information'')
   \<and> length (issued (serve example_config GetNhlTeams
        [HttpResponse 200 (JObj [])] signed_in)) = 1
   \<and> reply (serve example_config GetNhlTeams [HttpResponse 200 (JObj [])] signed_in)
       = Some (Send 500 ''Error fetching NHL team information'')
   \<and> resume (AwaitMatchupsLeagues (JStr ''current'')) (Resolved example_leagues)
        \<lparr>accessToken = JStr ''U'', console = []\<rparr>
       = (\<lparr>accessToken = JStr ''U'', console = []\<rparr>,
          Await
            (Get ''https://fantasysports.yahooapis.com/fantasy/v2/league/453.l.1234/scoreboard;week=current?format=json''
               [(''Authorization'', Lit ''Bearer U''),
           (''Content-Type'', Lit ''application/x-www-form-urlencoded'')])
            AwaitMatchups)
   \<and> resume AwaitTeamsLeagues (Resolved example_leagues)
        \<lparr>accessToken = JStr ''U'', console = []\<rparr>
       = (\<lparr>accessToken = JStr ''U'', console = []\<rparr>,
          Await
            (Get ''https://fantasysports.yahooapis.com/fantasy/v2/league/453.l.1234/teams?format=json''
               [(''Authorization'', Lit ''Bearer U''),
           (''Content-Type'', Lit ''application/x-www-form-urlencoded'')])
            AwaitTeams)
   \<and> snd (resume (AwaitMatchupsLeagues (JStr ''current'')) (Resolved example_leagues) initial)
       = Done (Send 500 ''Error fetching NHL matchup information'')
   \<and> snd (resume AwaitTeamsLeagues (Resolved example_leagues) initial)
       = Done (Send 500 ''Error fetching NHL team information'')"
proof -
  have tok: "truthy (accessToken signed_in)" "toString (accessToken signed_in) = Inr ''T''"
    by (simp_all add: signed_in_def)
  have key: "toString (JStr ''453.l.1234'') = Inr ''453.l.1234''"
    by simp
  have week: "toString (js_or (JStr ''7'') (JStr ''current'')) = Inr ''7''"
    by (simp add: js_or_def)
  have bad: "follow league_key_path (JObj []) = Inl TypeError"
    by (simp add: league_key_path_def)
  have other: "truthy (accessToken \<lparr>accessToken = JStr ''U'', console = []\<rparr>)"
    "toString (accessToken \<lparr>accessToken = JStr ''U'', console = []\<rparr>) = Inr ''U''"
    by simp_all
  have absent: "\<not> truthy (accessToken initial)"
    by (simp add: initial_def)
  have cur: "toString (JStr ''current'') = Inr ''current''"
    by simp
  have rej: "axios (NetworkError ''ECONNRESET'') = Rejected (AxiosNetwork ''ECONNRESET'')"
    by simp
  show ?thesis
    using league_scoped_second_call [OF tok, where cfg = example_config and week = "JStr ''7''"
        and answers = "[]" and n = 200 and leaguesData = example_leagues
        and leagueKey = "JStr ''453.l.1234''" and lk = "''453.l.1234''" and w = "''7''"
        and a = "HttpResponse 200 (JObj [(''scoreboard'', JNull)])" and rest = "[]" and m = 200
        and d = "JObj [(''scoreboard'', JNull)]"
        and a' = "NetworkError ''ECONNRESET''" and e = "AxiosNetwork ''ECONNRESET''"
        and n' = 200 and bad = "JObj []" and e' = TypeError
        and s' = "\<lparr>accessToken = JStr ''U'', console = []\<rparr>" and t' = "''U''"
        and week' = "JStr ''current''" and w' = "''current''" and s'' = initial]
      follow_example_leagues key week bad other absent cur rej
    by auto
qed









subsection \<open>The week of \<^verbatim>\<open>/nhl-matchups\<close>\<close>

text \<open>
  C9: \<^verbatim>\<open>/nhl-matchups\<close> invoked with a token present and no \<^verbatim>\<open>week\<close> parameter builds its
  scoreboard request with the literal week \<^verbatim>\<open>current\<close>: when the league list arrives and the
  key is read, the second call goes to \<^verbatim>\<open>.../league/<key>/scoreboard;week=current?format=json\<close>;
  and whatever the answers are, every call the handler issues is the league list or a
  scoreboard with \<^verbatim>\<open>week=current\<close>.
\<close>

theorem matchups_default_week:
  assumes "truthy (accessToken s)" and "toString (accessToken s) = Inr t"
  shows "(200 \<le> n \<and> n < 300 \<and> follow league_key_path leaguesData = Inr leagueKey
            \<and> toString leagueKey = Inr lk \<longrightarrow>
          issued (serve cfg (GetNhlMatchups JUndefined) (HttpResponse n leaguesData # rest) s)
            = [Get leaguesUrl (bearer t),
               Get (''https://fantasysports.yahooapis.com/fantasy/v2/league/'' @ lk
                      @ ''/scoreboard;week=current?format=json'') (bearer t)])
       \<and> (\<forall>c \<in> set (issued (serve cfg (GetNhlMatchups JUndefined) answers s)).
            c = Get leaguesUrl (bearer t) \<or> (\<exists>lk. c = Get (scoreboardUrl lk ''current'') (bearer t)))"
proof (intro conjI impI ballI)
  assume "200 \<le> n \<and> n < 300 \<and> follow league_key_path leaguesData = Inr leagueKey
    \<and> toString leagueKey = Inr lk"
  then show "issued (serve cfg (GetNhlMatchups JUndefined) (HttpResponse n leaguesData # rest) s)
       = [Get leaguesUrl (bearer t),
          Get (''https://fantasysports.yahooapis.com/fantasy/v2/league/'' @ lk
                 @ ''/scoreboard;week=current?format=json'') (bearer t)]"
    using assms
    by (cases rest; cases "axios (hd rest)")
      (auto simp: serve_defs step_defs js_or_def scoreboardUrl_def)
next
  fix c
  assume c: "c \<in> set (issued (serve cfg (GetNhlMatchups JUndefined) answers s))"
  show "c = Get leaguesUrl (bearer t) \<or> (\<exists>lk. c = Get (scoreboardUrl lk ''current'') (bearer t))"
  proof (cases answers)
    case Nil
    then show ?thesis
      using c assms by (auto simp: serve_defs step_defs js_or_def)
  next
    case (Cons a as)
    show ?thesis
    proof (cases as)
      case Nil
      then show ?thesis
        using c assms Cons
        by (cases "axios a") (auto simp: serve_defs step_defs js_or_def Let_def split: sum.splits)
    next
      case (Cons b bs)
      then show ?thesis
        using c assms \<open>answers = a # as\<close>
        by (cases "axios a"; cases "axios b")
          (auto simp: serve_defs step_defs js_or_def Let_def split: sum.splits)
    qed
  qed
qed

theorem matchups_default_week_witness:
  "issued (serve example_config (GetNhlMatchups JUndefined) [HttpResponse 200 example_leagues] signed_in)
     = [Get leaguesUrl (bearer ''T''),
        Get ''https://fantasysports.yahooapis.com/fantasy/v2/league/453.l.1234/scoreboard;week=current?format=json''
          (bearer ''T'')]"
proof -
  have tok: "truthy (accessToken signed_in)" "toString (accessToken signed_in) = Inr ''T''"
    by (simp_all add: signed_in_def)
  show ?thesis
    using matchups_default_week [OF tok, where n = 200 and leaguesData = example_leagues
        and leagueKey = "JStr ''453.l.1234''" and lk = "''453.l.1234''" and rest = "[]"
        and cfg = example_config and answers = "[]"]
      follow_example_leagues
    by simp
qed

text \<open>
  C10: a \<^verbatim>\<open>week\<close> that is supplied but empty (\<^verbatim>\<open>?week=\<close>) is served exactly as an absent one,
  hence with the literal week \<^verbatim>\<open>current\<close>; the same holds for every falsy value, since the
  default is taken by \<^verbatim>\<open>||\<close>.
\<close>

theorem matchups_empty_week:
  assumes "\<not> truthy v"
  shows "serve cfg (GetNhlMatchups v) answers s = serve cfg (GetNhlMatchups JUndefined) answers s
       \<and> serve cfg (GetNhlMatchups (JStr [])) answers s
           = serve cfg (GetNhlMatchups JUndefined) answers s
       \<and> (truthy (accessToken s) \<and> toString (accessToken s) = Inr t \<and> 200 \<le> n \<and> n < 300
            \<and> follow league_key_path leaguesData = Inr leagueKey \<and> toString leagueKey = Inr lk \<longrightarrow>
          issued (serve cfg (GetNhlMatchups (JStr [])) (HttpResponse n leaguesData # rest) s)
            = [Get leaguesUrl (bearer t),
               Get (''https://fantasysports.yahooapis.com/fantasy/v2/league/'' @ lk
                      @ ''/scoreboard;week=current?format=json'') (bearer t)])"
proof (intro conjI impI)
  show "serve cfg (GetNhlMatchups v) answers s = serve cfg (GetNhlMatchups JUndefined) answers s"
    using assms by (simp add: serve_def nhl_matchups_def js_or_def)
  show "serve cfg (GetNhlMatchups (JStr [])) answers s
      = serve cfg (GetNhlMatchups JUndefined) answers s"
    by (simp add: serve_def nhl_matchups_def js_or_def)
next
  assume "truthy (accessToken s) \<and> toString (accessToken s) = Inr t \<and> 200 \<le> n \<and> n < 300
    \<and> follow league_key_path leaguesData = Inr leagueKey \<and> toString leagueKey = Inr lk"
  then show "issued (serve cfg (GetNhlMatchups (JStr [])) (HttpResponse n leaguesData # rest) s)
       = [Get leaguesUrl (bearer t),
          Get (''https://fantasysports.yahooapis.com/fantasy/v2/league/'' @ lk
                 @ ''/scoreboard;week=current?format=json'') (bearer t)]"
    by (cases rest; cases "axios (hd rest)")
      (auto simp: serve_defs step_defs js_or_def scoreboardUrl_def)
qed

theorem matchups_empty_week_witness:
  "serve example_config (GetNhlMatchups (JStr [])) [HttpResponse 200 example_leagues] signed_in
     = serve example_config (GetNhlMatchups JUndefined) [HttpResponse 200 example_leagues] signed_in
   \<and> issued (serve example_config (GetNhlMatchups (JStr [])) [HttpResponse 200 example_leagues] signed_in)
     = [Get leaguesUrl (bearer ''T''),
        Get ''https://fantasysports.yahooapis.com/fantasy/v2/league/453.l.1234/scoreboard;week=current?format=json''
          (bearer ''T'')]"
proof -
  have falsy: "\<not> truthy (JStr [])"
    by simp
  have tok: "truthy (accessToken signed_in)" "toString (accessToken signed_in) = Inr ''T''"
    by (simp_all add: signed_in_def)
  show ?thesis
    using matchups_empty_week [OF falsy, where n = 200 and leaguesData = example_leagues
        and leagueKey = "JStr ''453.l.1234''" and lk = "''453.l.1234''" and rest = "[]"
        and cfg = example_config and answers = "[HttpResponse 200 example_leagues]"
        and s = signed_in and t = "''T''"]
      tok follow_example_leagues
    by auto
qed

end
